theory Spec2Isabelle
  imports Main "HOL-Library.Word"
begin

section \<open>The archive service of the FS module (core/hle/service/fs/archive.cpp)\<close>

text \<open>
  The file keeps two process-wide tables, the registry of archive factories and the table
  of open archive handles, and implements the command handlers of an open file. Every
  backend (archive factories, archive backends, file backends), guest memory and the IPC
  buffers are collaborators declared in other files. They are taken as parameters here:
  records of functions over a world \<open>'w\<close>, the state of everything outside this file
  (host file system, backend objects, guest memory). A backend object is designated by its
  address, as the C++ code designates it by a pointer.
\<close>

subsection \<open>Basic types\<close>

type_synonym u8 = "8 word"
type_synonym u32 = "32 word"
type_synonym u64 = "64 word"
type_synonym VAddr = u32

text \<open>\<open>ArchiveHandle\<close> is a 64-bit unsigned integer: the increment in \<open>OpenArchive\<close> wraps.\<close>

type_synonym ArchiveHandle = u64

text \<open>The address of an object on the C++ heap.\<close>

type_synonym ptr = nat

text \<open>
  \<open>FileSys::Path\<close>, \<open>FileSys::Mode\<close> and \<open>FileSys::ArchiveFormatInfo\<close> are only passed on
  to the backends by this file; their contents are never inspected.
\<close>

type_synonym Path = string
type_synonym Mode = u32
type_synonym ArchiveFormatInfo = "u8 list"

text \<open>The archive id codes and media types that archive.cpp names.\<close>

datatype ArchiveIdCode =
    SelfNCCH | SaveData | ExtSaveData | SharedExtSaveData | SystemSaveData
  | SDMC | SDMCWriteOnly | NCCH | OtherSaveDataGeneral | OtherSaveDataPermitted

datatype MediaType = NAND | SDMC_media | GameCard

datatype ErrorModule = FS

text \<open>
  Modelled from the spec: \<open>ResultCode\<close> (core/hle/result.h) and the FS error constants
  (core/file_sys/errors.h) are not among the sources. Section 7 of the specification names
  the classes of results as distinct: success, \<open>NotFound\<close>, \<open>InvalidHandle\<close>,
  \<open>Unimplemented\<close>, and opaque codes. The constructors carry the names archive.cpp uses for
  them; \<open>ResultCode raw\<close> is a code given by its raw 32-bit value, as in \<open>ResultCode(-1)\<close>.
\<close>

datatype ResultCode =
    RESULT_SUCCESS
  | ERROR_NOT_FOUND
  | ERR_INVALID_ARCHIVE_HANDLE
  | UnimplementedFunction ErrorModule
  | ResultCode u32

text \<open>
  Modelled from the spec: \<open>ResultCode::IsError\<close> (core/hle/result.h). The named error
  constants are errors, success is not; a raw code is an error when its top bit is set.
\<close>

fun IsError :: "ResultCode \<Rightarrow> bool" where
  "IsError RESULT_SUCCESS = False"
| "IsError ERROR_NOT_FOUND = True"
| "IsError ERR_INVALID_ARCHIVE_HANDLE = True"
| "IsError (UnimplementedFunction m) = True"
| "IsError (ResultCode raw) = bit raw 31"

text \<open>\<open>ResultVal<T>\<close> holds either an error code (\<open>Failed()\<close>, \<open>Code()\<close>) or a value.\<close>

type_synonym 'a ResultVal = "ResultCode + 'a"

subsection \<open>The collaborators, as parameters\<close>

text \<open>
  \<open>FileSys::ArchiveFactory\<close>: the virtual calls archive.cpp makes on a factory; the first
  argument is the factory object. \<open>WriteIcon\<close> is the call on
  \<open>ArchiveFactory_ExtSaveData\<close>.
\<close>

record 'w ArchiveFactory =
  Open :: "ptr \<Rightarrow> Path \<Rightarrow> 'w \<Rightarrow> ptr ResultVal \<times> 'w"
  Format :: "ptr \<Rightarrow> Path \<Rightarrow> ArchiveFormatInfo \<Rightarrow> 'w \<Rightarrow> ResultCode \<times> 'w"
  GetFormatInfo :: "ptr \<Rightarrow> Path \<Rightarrow> 'w \<Rightarrow> ArchiveFormatInfo ResultVal \<times> 'w"
  WriteIcon :: "ptr \<Rightarrow> Path \<Rightarrow> u8 list \<Rightarrow> 'w \<Rightarrow> 'w"

text \<open>\<open>FileSys::ArchiveBackend\<close>: the virtual calls made on an open archive.\<close>

record 'w ArchiveBackend =
  OpenFile :: "ptr \<Rightarrow> Path \<Rightarrow> Mode \<Rightarrow> 'w \<Rightarrow> ptr ResultVal \<times> 'w"
  DeleteFile :: "ptr \<Rightarrow> Path \<Rightarrow> 'w \<Rightarrow> ResultCode \<times> 'w"
  RenameFile :: "ptr \<Rightarrow> Path \<Rightarrow> Path \<Rightarrow> 'w \<Rightarrow> ResultCode \<times> 'w"
  DeleteDirectory :: "ptr \<Rightarrow> Path \<Rightarrow> 'w \<Rightarrow> ResultCode \<times> 'w"
  DeleteDirectoryRecursively :: "ptr \<Rightarrow> Path \<Rightarrow> 'w \<Rightarrow> ResultCode \<times> 'w"
  CreateFile :: "ptr \<Rightarrow> Path \<Rightarrow> u64 \<Rightarrow> 'w \<Rightarrow> ResultCode \<times> 'w"
  CreateDirectory :: "ptr \<Rightarrow> Path \<Rightarrow> 'w \<Rightarrow> ResultCode \<times> 'w"
  RenameDirectory :: "ptr \<Rightarrow> Path \<Rightarrow> Path \<Rightarrow> 'w \<Rightarrow> ResultCode \<times> 'w"
  OpenDirectory :: "ptr \<Rightarrow> Path \<Rightarrow> 'w \<Rightarrow> ptr ResultVal \<times> 'w"
  GetFreeBytes :: "ptr \<Rightarrow> 'w \<Rightarrow> u64 \<times> 'w"

text \<open>
  \<open>FileSys::FileBackend\<close>: the calls made on the backend of an open file. \<open>Read\<close> is given
  the destination vector and returns it filled, with the \<open>ResultVal<size_t>\<close>.
  \<open>File::SetSize\<close>, \<open>File::Close\<close> and \<open>File::Flush\<close> discard whatever the backend call
  returns; the model lets the backend report a \<open>ResultCode\<close> there, so that the discarding
  is visible.
\<close>

record 'w FileBackend =
  Read :: "ptr \<Rightarrow> u64 \<Rightarrow> nat \<Rightarrow> u8 list \<Rightarrow> 'w \<Rightarrow> nat ResultVal \<times> u8 list \<times> 'w"
  Write :: "ptr \<Rightarrow> u64 \<Rightarrow> nat \<Rightarrow> bool \<Rightarrow> u8 list \<Rightarrow> 'w \<Rightarrow> nat ResultVal \<times> 'w"
  GetSize :: "ptr \<Rightarrow> 'w \<Rightarrow> u64"
  SetSize :: "ptr \<Rightarrow> u64 \<Rightarrow> 'w \<Rightarrow> ResultCode \<times> 'w"
  Close :: "ptr \<Rightarrow> 'w \<Rightarrow> ResultCode \<times> 'w"
  Flush :: "ptr \<Rightarrow> 'w \<Rightarrow> ResultCode \<times> 'w"

text \<open>
  The mapped buffer of an IPC request (\<open>rp.PopMappedBuffer()\<close>), of an abstract type \<open>'m\<close>:
  \<open>buffer.Read(dest, offset, size)\<close> gives the bytes copied out,
  \<open>buffer.Write(src, offset, size)\<close> the buffer after the copy.
\<close>

record 'm MappedBuffer =
  Buffer_Read :: "'m \<Rightarrow> nat \<Rightarrow> nat \<Rightarrow> u8 list"
  Buffer_Write :: "'m \<Rightarrow> u8 list \<Rightarrow> nat \<Rightarrow> nat \<Rightarrow> 'm"

text \<open>
  Guest memory (core/memory.h) and the path constructor of archive_extsavedata.h, which
  is given the media type (the source passes it as \<open>static_cast<u32>(media_type)\<close>).
\<close>

record 'w Memory =
  IsValidVirtualAddress :: "'w \<Rightarrow> VAddr \<Rightarrow> bool"
  ReadBlock :: "'w \<Rightarrow> VAddr \<Rightarrow> nat \<Rightarrow> u8 list"
  ConstructExtDataBinaryPath :: "MediaType \<Rightarrow> u32 \<Rightarrow> u32 \<Rightarrow> Path"

subsection \<open>The file session\<close>

text \<open>The words a handler pushes into its response, in order (\<open>rb.Push\<close>).\<close>

datatype 'm pushed =
    Push_ResultCode ResultCode
  | Push_u32 u32
  | Push_u64 u64
  | PushMappedBuffer 'm

text \<open>The fields of class \<open>File\<close>; \<open>backend\<close> is the owned \<open>FileBackend\<close> object.\<close>

record File =
  path :: Path
  priority :: u32
  backend :: ptr

text \<open>The constructor \<open>File::File\<close>: the priority starts at 0.\<close>

definition File_new :: "ptr \<Rightarrow> Path \<Rightarrow> File" where
  "File_new backend_ptr p = \<lparr>path = p, priority = 0, backend = backend_ptr\<rparr>"

text \<open>
  \<open>File::Read\<close>. The out-of-bounds test adds \<open>length\<close> to the 64-bit \<open>offset\<close> (with
  wrap-around) and only writes to the log; the second component of the result is what
  \<open>LOG_ERROR\<close> received. The destination vector has \<open>length\<close> zero bytes.
\<close>

definition File_Read ::
  "'w FileBackend \<Rightarrow> 'm MappedBuffer \<Rightarrow> File \<Rightarrow> u64 \<Rightarrow> u32 \<Rightarrow> 'm \<Rightarrow> 'w
    \<Rightarrow> 'm pushed list \<times> string list \<times> 'w" where
  "File_Read E M f offset length' buffer w =
    (let log = (if offset + ucast length' > GetSize E (backend f) w
                then [''Reading from out of bounds''] else []);
         data = replicate (unat length') (0 :: u8)
     in case Read E (backend f) offset (length data) data w of
          (Inl code, data', w') \<Rightarrow>
            ([Push_ResultCode code, Push_u32 0, PushMappedBuffer buffer], log, w')
        | (Inr read, data', w') \<Rightarrow>
            (let buffer' = Buffer_Write M buffer data' 0 read
             in ([Push_ResultCode RESULT_SUCCESS, Push_u32 (of_nat read),
                  PushMappedBuffer buffer'], log, w')))"

text \<open>\<open>File::Write\<close>.\<close>

definition File_Write ::
  "'w FileBackend \<Rightarrow> 'm MappedBuffer \<Rightarrow> File \<Rightarrow> u64 \<Rightarrow> u32 \<Rightarrow> u32 \<Rightarrow> 'm \<Rightarrow> 'w
    \<Rightarrow> 'm pushed list \<times> 'w" where
  "File_Write E M f offset length' flush buffer w =
    (let data = Buffer_Read M buffer 0 (unat length')
     in case Write E (backend f) offset (unat length') (flush \<noteq> 0) data w of
          (Inl code, w') \<Rightarrow>
            ([Push_ResultCode code, Push_u32 0, PushMappedBuffer buffer], w')
        | (Inr written, w') \<Rightarrow>
            ([Push_ResultCode RESULT_SUCCESS, Push_u32 (of_nat written),
              PushMappedBuffer buffer], w'))"

text \<open>\<open>File::GetSize\<close>.\<close>

definition File_GetSize :: "'w FileBackend \<Rightarrow> File \<Rightarrow> 'w \<Rightarrow> 'm pushed list \<times> 'w" where
  "File_GetSize E f w =
    ([Push_ResultCode RESULT_SUCCESS, Push_u64 (GetSize E (backend f) w)], w)"

text \<open>\<open>File::SetSize\<close>, \<open>File::Close\<close>, \<open>File::Flush\<close>: the backend call, then success.\<close>

definition File_SetSize :: "'w FileBackend \<Rightarrow> File \<Rightarrow> u64 \<Rightarrow> 'w \<Rightarrow> 'm pushed list \<times> 'w" where
  "File_SetSize E f size' w =
    (case SetSize E (backend f) size' w of
       (r, w') \<Rightarrow> ([Push_ResultCode RESULT_SUCCESS], w'))"

definition File_Close :: "'w FileBackend \<Rightarrow> File \<Rightarrow> 'w \<Rightarrow> 'm pushed list \<times> 'w" where
  "File_Close E f w =
    (case Close E (backend f) w of
       (r, w') \<Rightarrow> ([Push_ResultCode RESULT_SUCCESS], w'))"

definition File_Flush :: "'w FileBackend \<Rightarrow> File \<Rightarrow> 'w \<Rightarrow> 'm pushed list \<times> 'w" where
  "File_Flush E f w =
    (case Flush E (backend f) w of
       (r, w') \<Rightarrow> ([Push_ResultCode RESULT_SUCCESS], w'))"

text \<open>
  \<open>File::SetPriority\<close> and \<open>File::GetPriority\<close>. Like every handler they run with the
  backend interface and the world at hand; they return the file object and the world as
  they leave them.
\<close>

definition File_SetPriority ::
  "'w FileBackend \<Rightarrow> File \<Rightarrow> u32 \<Rightarrow> 'w \<Rightarrow> 'm pushed list \<times> File \<times> 'w" where
  "File_SetPriority E f p w = ([Push_ResultCode RESULT_SUCCESS], f\<lparr>priority := p\<rparr>, w)"

definition File_GetPriority ::
  "'w FileBackend \<Rightarrow> File \<Rightarrow> 'w \<Rightarrow> 'm pushed list \<times> File \<times> 'w" where
  "File_GetPriority E f w =
    ([Push_ResultCode RESULT_SUCCESS, Push_u32 (priority f)], f, w)"

subsection \<open>The registry and the handle table\<close>

text \<open>
  The three statics of the file: \<open>id_code_map\<close> (a flat map from id codes to factories),
  \<open>handle_map\<close> (an unordered map from handles to the backends it owns) and
  \<open>next_handle\<close>. Both containers hold at most one value per key.
\<close>

record fs_state =
  id_code_map :: "ArchiveIdCode \<rightharpoonup> ptr"
  handle_map :: "ArchiveHandle \<rightharpoonup> ptr"
  next_handle :: ArchiveHandle

text \<open>\<open>emplace\<close> inserts only when the key is absent; \<open>erase\<close> returns the number removed.\<close>

definition emplace :: "('k \<rightharpoonup> 'v) \<Rightarrow> 'k \<Rightarrow> 'v \<Rightarrow> ('k \<rightharpoonup> 'v)" where
  "emplace m k v = (if m k = None then m(k \<mapsto> v) else m)"

definition erase :: "('k \<rightharpoonup> 'v) \<Rightarrow> 'k \<Rightarrow> nat \<times> ('k \<rightharpoonup> 'v)" where
  "erase m k = (if m k = None then (0, m) else (1, m(k := None)))"

text \<open>\<open>GetArchive\<close>: \<open>None\<close> is the null pointer.\<close>

definition GetArchive :: "fs_state \<Rightarrow> ArchiveHandle \<Rightarrow> ptr option" where
  "GetArchive s h = handle_map s h"

text \<open>
  The loop \<open>while (handle_map.count(next_handle) != 0) ++next_handle;\<close> of
  \<open>OpenArchive\<close>. It does not end when every handle value is in use: the result is then
  \<open>None\<close>.
\<close>

partial_function (option) skip_used ::
  "(ArchiveHandle \<rightharpoonup> ptr) \<Rightarrow> ArchiveHandle \<Rightarrow> ArchiveHandle option" where
  "skip_used m h = (if m h \<noteq> None then skip_used m (h + 1) else Some h)"

declare skip_used.simps [code]

text \<open>
  \<open>OpenArchive\<close>: \<open>CASCADE_RESULT\<close> returns the factory's error code; after the loop the
  backend is stored under \<open>next_handle\<close>, which is returned and then incremented.
\<close>

definition OpenArchive ::
  "'w ArchiveFactory \<Rightarrow> fs_state \<Rightarrow> ArchiveIdCode \<Rightarrow> Path \<Rightarrow> 'w
    \<Rightarrow> (ArchiveHandle ResultVal \<times> fs_state \<times> 'w) option" where
  "OpenArchive F s id_code archive_path w =
    (case id_code_map s id_code of
       None \<Rightarrow> Some (Inl ERROR_NOT_FOUND, s, w)
     | Some factory \<Rightarrow>
        (case Open F factory archive_path w of
           (Inl code, w') \<Rightarrow> Some (Inl code, s, w')
         | (Inr res, w') \<Rightarrow>
            (case skip_used (handle_map s) (next_handle s) of
               None \<Rightarrow> None
             | Some h \<Rightarrow>
                 Some (Inr h,
                       s\<lparr>handle_map := emplace (handle_map s) h res, next_handle := h + 1\<rparr>,
                       w'))))"

text \<open>\<open>CloseArchive\<close>.\<close>

definition CloseArchive :: "fs_state \<Rightarrow> ArchiveHandle \<Rightarrow> ResultCode \<times> fs_state" where
  "CloseArchive s h =
    (case erase (handle_map s) h of
       (n, m') \<Rightarrow>
         if n = 0 then (ERR_INVALID_ARCHIVE_HANDLE, s\<lparr>handle_map := m'\<rparr>)
         else (RESULT_SUCCESS, s\<lparr>handle_map := m'\<rparr>))"

text \<open>
  The state after \<open>ArchiveInit\<close> at program start: the handle table is empty, the counter
  is 1, and the registry holds the factories \<open>RegisterArchiveTypes\<close> registered.
\<close>

definition ArchiveInit :: "(ArchiveIdCode \<rightharpoonup> ptr) \<Rightarrow> fs_state" where
  "ArchiveInit registered =
    \<lparr>id_code_map = registered, handle_map = Map.empty, next_handle = 1\<rparr>"

subsection \<open>Operations on an open archive\<close>

definition OpenFileFromArchive ::
  "'w ArchiveBackend \<Rightarrow> fs_state \<Rightarrow> ArchiveHandle \<Rightarrow> Path \<Rightarrow> Mode \<Rightarrow> 'w
    \<Rightarrow> File ResultVal \<times> 'w" where
  "OpenFileFromArchive B s archive_handle p mode w =
    (case GetArchive s archive_handle of
       None \<Rightarrow> (Inl ERR_INVALID_ARCHIVE_HANDLE, w)
     | Some archive \<Rightarrow>
        (case OpenFile B archive p mode w of
           (Inl code, w') \<Rightarrow> (Inl code, w')
         | (Inr file_backend, w') \<Rightarrow> (Inr (File_new file_backend p), w')))"

definition DeleteFileFromArchive ::
  "'w ArchiveBackend \<Rightarrow> fs_state \<Rightarrow> ArchiveHandle \<Rightarrow> Path \<Rightarrow> 'w \<Rightarrow> ResultCode \<times> 'w" where
  "DeleteFileFromArchive B s archive_handle p w =
    (case GetArchive s archive_handle of
       None \<Rightarrow> (ERR_INVALID_ARCHIVE_HANDLE, w)
     | Some archive \<Rightarrow> DeleteFile B archive p w)"

definition RenameFileBetweenArchives ::
  "'w ArchiveBackend \<Rightarrow> fs_state \<Rightarrow> ArchiveHandle \<Rightarrow> Path \<Rightarrow> ArchiveHandle \<Rightarrow> Path \<Rightarrow> 'w
    \<Rightarrow> ResultCode \<times> 'w" where
  "RenameFileBetweenArchives B s src_archive_handle src_path dest_archive_handle dest_path w =
    (let src_archive = GetArchive s src_archive_handle;
         dest_archive = GetArchive s dest_archive_handle
     in if src_archive = None \<or> dest_archive = None then (ERR_INVALID_ARCHIVE_HANDLE, w)
        else if src_archive = dest_archive
             then RenameFile B (the src_archive) src_path dest_path w
             else (UnimplementedFunction FS, w))"

definition DeleteDirectoryFromArchive ::
  "'w ArchiveBackend \<Rightarrow> fs_state \<Rightarrow> ArchiveHandle \<Rightarrow> Path \<Rightarrow> 'w \<Rightarrow> ResultCode \<times> 'w" where
  "DeleteDirectoryFromArchive B s archive_handle p w =
    (case GetArchive s archive_handle of
       None \<Rightarrow> (ERR_INVALID_ARCHIVE_HANDLE, w)
     | Some archive \<Rightarrow> DeleteDirectory B archive p w)"

definition DeleteDirectoryRecursivelyFromArchive ::
  "'w ArchiveBackend \<Rightarrow> fs_state \<Rightarrow> ArchiveHandle \<Rightarrow> Path \<Rightarrow> 'w \<Rightarrow> ResultCode \<times> 'w" where
  "DeleteDirectoryRecursivelyFromArchive B s archive_handle p w =
    (case GetArchive s archive_handle of
       None \<Rightarrow> (ERR_INVALID_ARCHIVE_HANDLE, w)
     | Some archive \<Rightarrow> DeleteDirectoryRecursively B archive p w)"

definition CreateFileInArchive ::
  "'w ArchiveBackend \<Rightarrow> fs_state \<Rightarrow> ArchiveHandle \<Rightarrow> Path \<Rightarrow> u64 \<Rightarrow> 'w \<Rightarrow> ResultCode \<times> 'w" where
  "CreateFileInArchive B s archive_handle p file_size w =
    (case GetArchive s archive_handle of
       None \<Rightarrow> (ERR_INVALID_ARCHIVE_HANDLE, w)
     | Some archive \<Rightarrow> CreateFile B archive p file_size w)"

definition CreateDirectoryFromArchive ::
  "'w ArchiveBackend \<Rightarrow> fs_state \<Rightarrow> ArchiveHandle \<Rightarrow> Path \<Rightarrow> 'w \<Rightarrow> ResultCode \<times> 'w" where
  "CreateDirectoryFromArchive B s archive_handle p w =
    (case GetArchive s archive_handle of
       None \<Rightarrow> (ERR_INVALID_ARCHIVE_HANDLE, w)
     | Some archive \<Rightarrow> CreateDirectory B archive p w)"

definition RenameDirectoryBetweenArchives ::
  "'w ArchiveBackend \<Rightarrow> fs_state \<Rightarrow> ArchiveHandle \<Rightarrow> Path \<Rightarrow> ArchiveHandle \<Rightarrow> Path \<Rightarrow> 'w
    \<Rightarrow> ResultCode \<times> 'w" where
  "RenameDirectoryBetweenArchives B s src_archive_handle src_path dest_archive_handle dest_path w =
    (let src_archive = GetArchive s src_archive_handle;
         dest_archive = GetArchive s dest_archive_handle
     in if src_archive = None \<or> dest_archive = None then (ERR_INVALID_ARCHIVE_HANDLE, w)
        else if src_archive = dest_archive
             then RenameDirectory B (the src_archive) src_path dest_path w
             else (UnimplementedFunction FS, w))"

text \<open>The fields of class \<open>Directory\<close>.\<close>

datatype Directory = Directory (dir_path: Path) (dir_backend: ptr)

definition OpenDirectoryFromArchive ::
  "'w ArchiveBackend \<Rightarrow> fs_state \<Rightarrow> ArchiveHandle \<Rightarrow> Path \<Rightarrow> 'w \<Rightarrow> Directory ResultVal \<times> 'w" where
  "OpenDirectoryFromArchive B s archive_handle p w =
    (case GetArchive s archive_handle of
       None \<Rightarrow> (Inl ERR_INVALID_ARCHIVE_HANDLE, w)
     | Some archive \<Rightarrow>
        (case OpenDirectory B archive p w of
           (Inl code, w') \<Rightarrow> (Inl code, w')
         | (Inr db, w') \<Rightarrow> (Inr (Directory p db), w')))"

definition GetFreeBytesInArchive ::
  "'w ArchiveBackend \<Rightarrow> fs_state \<Rightarrow> ArchiveHandle \<Rightarrow> 'w \<Rightarrow> u64 ResultVal \<times> 'w" where
  "GetFreeBytesInArchive B s archive_handle w =
    (case GetArchive s archive_handle of
       None \<Rightarrow> (Inl ERR_INVALID_ARCHIVE_HANDLE, w)
     | Some archive \<Rightarrow> (case GetFreeBytes B archive w of (n, w') \<Rightarrow> (Inr n, w')))"

subsection \<open>Operations through the registry\<close>

definition FormatArchive ::
  "'w ArchiveFactory \<Rightarrow> fs_state \<Rightarrow> ArchiveIdCode \<Rightarrow> ArchiveFormatInfo \<Rightarrow> Path \<Rightarrow> 'w
    \<Rightarrow> ResultCode \<times> 'w" where
  "FormatArchive F s id_code format_info p w =
    (case id_code_map s id_code of
       None \<Rightarrow> (UnimplementedFunction FS, w)
     | Some factory \<Rightarrow> Format F factory p format_info w)"

definition GetArchiveFormatInfo ::
  "'w ArchiveFactory \<Rightarrow> fs_state \<Rightarrow> ArchiveIdCode \<Rightarrow> Path \<Rightarrow> 'w
    \<Rightarrow> ArchiveFormatInfo ResultVal \<times> 'w" where
  "GetArchiveFormatInfo F s id_code archive_path w =
    (case id_code_map s id_code of
       None \<Rightarrow> (Inl (UnimplementedFunction FS), w)
     | Some factory \<Rightarrow> GetFormatInfo F factory archive_path w)"

text \<open>
  \<open>CreateExtSaveData\<close>: path, factory lookup, \<open>Format\<close>, the test of the icon address, then
  the copy of the icon out of guest memory and \<open>WriteIcon\<close>.
\<close>

definition CreateExtSaveData ::
  "'w ArchiveFactory \<Rightarrow> 'w Memory \<Rightarrow> fs_state \<Rightarrow> MediaType \<Rightarrow> u32 \<Rightarrow> u32 \<Rightarrow> VAddr \<Rightarrow> u32
    \<Rightarrow> ArchiveFormatInfo \<Rightarrow> 'w \<Rightarrow> ResultCode \<times> 'w" where
  "CreateExtSaveData F G s media_type high low icon_buffer icon_size format_info w =
    (let p = ConstructExtDataBinaryPath G media_type high low
     in case id_code_map s (if media_type = NAND then SharedExtSaveData else ExtSaveData) of
          None \<Rightarrow> (UnimplementedFunction FS, w)
        | Some ext_savedata \<Rightarrow>
           (case Format F ext_savedata p format_info w of
              (result, w1) \<Rightarrow>
                if IsError result then (result, w1)
                else if \<not> IsValidVirtualAddress G w1 icon_buffer then (ResultCode (- 1), w1)
                else (let smdh_icon = ReadBlock G w1 icon_buffer (unat icon_size)
                      in (RESULT_SUCCESS, WriteIcon F ext_savedata p smdh_icon w1))))"

subsection \<open>Reachable states of the two tables\<close>

text \<open>
  The states the statics go through from \<open>ArchiveInit\<close> by calls of \<open>OpenArchive\<close> and
  \<open>CloseArchive\<close>, the only functions that write the handle table or the counter. The
  world an \<open>OpenArchive\<close> runs in is arbitrary: other operations change it in between.
\<close>

inductive reachable :: "'w ArchiveFactory \<Rightarrow> (ArchiveIdCode \<rightharpoonup> ptr) \<Rightarrow> fs_state \<Rightarrow> bool"
  for F :: "'w ArchiveFactory" and registered :: "ArchiveIdCode \<rightharpoonup> ptr" where
  reachable_init: "reachable F registered (ArchiveInit registered)"
| reachable_open:
    "reachable F registered s \<Longrightarrow> OpenArchive F s id_code p w = Some (r, s', w')
      \<Longrightarrow> reachable F registered s'"
| reachable_close:
    "reachable F registered s \<Longrightarrow> CloseArchive s h = (r, s') \<Longrightarrow> reachable F registered s'"

subsection \<open>Sample collaborators\<close>

text \<open>
  Small collaborators on which the operations can be evaluated. Their world is the journal
  of the backend calls made so far, so that every mutation a backend performs is visible.
\<close>

type_synonym journal = "string list"

text \<open>A factory that always succeeds; the archive it opens gets the next free address.\<close>

definition sample_factory :: "journal ArchiveFactory" where
  "sample_factory =
    \<lparr>Open = (\<lambda>factory p w. (Inr (length w), w @ [''Open''])),
     Format = (\<lambda>factory p info w. (RESULT_SUCCESS, w @ [''Format''])),
     GetFormatInfo = (\<lambda>factory p w. (Inr [], w)),
     WriteIcon = (\<lambda>factory p icon w. w @ [''WriteIcon''])\<rparr>"

text \<open>Guest memory in which only address 0 is unmapped.\<close>

definition sample_memory :: "journal Memory" where
  "sample_memory =
    \<lparr>IsValidVirtualAddress = (\<lambda>w a. a \<noteq> 0),
     ReadBlock = (\<lambda>w a n. replicate n 0),
     ConstructExtDataBinaryPath = (\<lambda>media_type high low. ''extdata'')\<rparr>"

text \<open>
  Guest memory whose mapping depends on the world: an address is mapped when it is below
  the number of calls journalled so far.
\<close>

definition growing_memory :: "journal Memory" where
  "growing_memory =
    \<lparr>IsValidVirtualAddress = (\<lambda>w a. unat a < length w),
     ReadBlock = (\<lambda>w a n. replicate n 0),
     ConstructExtDataBinaryPath = (\<lambda>media_type high low. ''extdata'')\<rparr>"

text \<open>An archive backend on which every call succeeds and is journalled.\<close>

definition sample_archive :: "journal ArchiveBackend" where
  "sample_archive =
    \<lparr>OpenFile = (\<lambda>a p mode w. (Inr 0, w @ [''OpenFile''])),
     DeleteFile = (\<lambda>a p w. (RESULT_SUCCESS, w @ [''DeleteFile''])),
     RenameFile = (\<lambda>a p q w. (RESULT_SUCCESS, w @ [''RenameFile''])),
     DeleteDirectory = (\<lambda>a p w. (RESULT_SUCCESS, w @ [''DeleteDirectory''])),
     DeleteDirectoryRecursively =
       (\<lambda>a p w. (RESULT_SUCCESS, w @ [''DeleteDirectoryRecursively''])),
     CreateFile = (\<lambda>a p n w. (RESULT_SUCCESS, w @ [''CreateFile''])),
     CreateDirectory = (\<lambda>a p w. (RESULT_SUCCESS, w @ [''CreateDirectory''])),
     RenameDirectory = (\<lambda>a p q w. (RESULT_SUCCESS, w @ [''RenameDirectory''])),
     OpenDirectory = (\<lambda>a p w. (Inr 0, w @ [''OpenDirectory''])),
     GetFreeBytes = (\<lambda>a w. (1024, w))\<rparr>"

text \<open>
  File backends: the object at address 0 is a file of the four bytes 1, 2, 3, 4, which
  reads what lies between the offset and its end; every call on any other object fails
  with \<open>ERROR_NOT_FOUND\<close>.
\<close>

definition sample_file_bytes :: "u8 list" where
  "sample_file_bytes = [1, 2, 3, 4]"

definition sample_file_backend :: "journal FileBackend" where
  "sample_file_backend =
    \<lparr>Read = (\<lambda>b offset n data w.
        if b = 0
        then (let got = take n (drop (unat offset) sample_file_bytes)
              in (Inr (length got), got @ drop (length got) data, w @ [''Read'']))
        else (Inl ERROR_NOT_FOUND, data, w @ [''Read''])),
     Write = (\<lambda>b offset n flush data w.
        if b = 0 then (Inr n, w @ [''Write'']) else (Inl ERROR_NOT_FOUND, w @ [''Write''])),
     GetSize = (\<lambda>b w. if b = 0 then 4 else 0),
     SetSize = (\<lambda>b n w.
        (if b = 0 then RESULT_SUCCESS else ERROR_NOT_FOUND, w @ [''SetSize''])),
     Close = (\<lambda>b w. (if b = 0 then RESULT_SUCCESS else ERROR_NOT_FOUND, w @ [''Close''])),
     Flush = (\<lambda>b w. (if b = 0 then RESULT_SUCCESS else ERROR_NOT_FOUND, w @ [''Flush'']))\<rparr>"

text \<open>A mapped buffer given by its bytes.\<close>

definition sample_buffer :: "u8 list MappedBuffer" where
  "sample_buffer =
    \<lparr>Buffer_Read = (\<lambda>m offset n. take n (drop offset m)),
     Buffer_Write = (\<lambda>m src offset n. take offset m @ take n src @ drop (offset + n) m)\<rparr>"

definition sample_file :: File where
  "sample_file = File_new 0 ''/a.bin''"

definition broken_file :: File where
  "broken_file = File_new 1 ''/b.bin''"

text \<open>A registry with two factories, and states of the tables over it.\<close>

definition sample_registry :: "ArchiveIdCode \<rightharpoonup> ptr" where
  "sample_registry = [SDMC \<mapsto> 0, ExtSaveData \<mapsto> 1]"

definition two_open :: fs_state where
  "two_open =
    \<lparr>id_code_map = sample_registry, handle_map = [1 \<mapsto> 10, 2 \<mapsto> 11], next_handle = 3\<rparr>"


section \<open>Properties\<close>

subsection \<open>The loop that skips the handles in use\<close>

text \<open>
  When a handle value is free at distance \<open>n\<close> from the counter, the loop ends, on the
  first free value at or after the counter.
\<close>

lemma skip_used_free:
  "m (h + of_nat n) = None \<Longrightarrow>
     \<exists>h'. skip_used m h = Some h' \<and> m h' = None \<and>
          (\<forall>k < unat (h' - h). m (h + of_nat k) \<noteq> None)"
proof (induction n arbitrary: h)
  case 0
  then have "skip_used m h = Some h"
    by (subst skip_used.simps) simp
  with 0 show ?case by simp
next
  case (Suc n)
  show ?case
  proof (cases "m h = None")
    case True
    then have "skip_used m h = Some h"
      by (subst skip_used.simps) simp
    with True show ?thesis by simp
  next
    case False
    from Suc.prems have "m ((h + 1) + of_nat n) = None"
      by (simp add: add.commute add.left_commute)
    from Suc.IH [OF this] obtain h' where
      h': "skip_used m (h + 1) = Some h'" "m h' = None"
        "\<forall>k < unat (h' - (h + 1)). m ((h + 1) + of_nat k) \<noteq> None"
      by blast
    from False have run: "skip_used m h = skip_used m (h + 1)"
      by (subst skip_used.simps) simp
    from False h'(2) have "h' \<noteq> h" by auto
    then have nz: "h' - h \<noteq> 0" by simp
    have dist: "unat (h' - (h + 1)) = unat (h' - h) - 1"
      using unat_minus_one [OF nz] by (simp add: diff_diff_eq)
    have "m (h + of_nat k) \<noteq> None" if "k < unat (h' - h)" for k
    proof (cases k)
      case 0
      with False show ?thesis by simp
    next
      case (Suc j)
      with that dist have "j < unat (h' - (h + 1))" by simp
      with h'(3) have "m ((h + 1) + of_nat j) \<noteq> None" by blast
      with Suc show ?thesis by (simp add: add.commute add.left_commute)
    qed
    with run h' show ?thesis by simp
  qed
qed

lemma skip_used_Some_free:
  assumes "skip_used m h = Some h'"
  shows "m h' = None"
proof (rule skip_used.raw_induct [where P = "\<lambda>m h h'. m h' = None", OF _ assms])
  fix f :: "(ArchiveHandle \<rightharpoonup> ptr) \<Rightarrow> ArchiveHandle \<Rightarrow> ArchiveHandle option"
  fix m h y
  assume "\<And>m h y. f m h = Some y \<Longrightarrow> m y = None"
    and "(if m h \<noteq> None then f m (h + 1) else Some h) = Some y"
  then show "m y = None"
    by (auto split: if_splits)
qed


lemma skip_used_returns:
  assumes "m g = None"
  shows "\<exists>h'. skip_used m h = Some h'"
proof -
  have "m (h + of_nat (unat (g - h))) = None"
    using assms by simp
  from skip_used_free [of m h "unat (g - h)", OF this] show ?thesis by blast
qed

lemma skip_used_unused: "m h = None \<Longrightarrow> skip_used m h = Some h"
  by (subst skip_used.simps) simp


subsection \<open>Opening an archive\<close>


text \<open>
  C4. For an id code that is not in the registry \<open>OpenArchive\<close> returns
  \<open>ERROR_NOT_FOUND\<close> and changes nothing. For a registered id code whose factory opens
  the path, \<open>OpenArchive\<close> returns a handle that is not among the live handles, and
  stores the new backend under it. The loop that looks for the handle ends as soon as one
  handle value \<open>g\<close> is free; with all \<open>2^64\<close> values live there is no handle to return.
\<close>

theorem OpenArchive_not_found_or_fresh:
  "(id_code_map s id_code = None \<longrightarrow>
      OpenArchive F s id_code p w = Some (Inl ERROR_NOT_FOUND, s, w)) \<and>
   (id_code_map s id_code = Some factory \<and> Open F factory p w = (Inr res, w') \<and>
    handle_map s g = None \<longrightarrow>
      (\<exists>h s'. OpenArchive F s id_code p w = Some (Inr h, s', w') \<and>
         h \<notin> dom (handle_map s) \<and> handle_map s' h = Some res))"
proof (intro conjI impI)
  assume "id_code_map s id_code = None"
  then show "OpenArchive F s id_code p w = Some (Inl ERROR_NOT_FOUND, s, w)"
    by (simp add: OpenArchive_def)
next
  assume a: "id_code_map s id_code = Some factory \<and> Open F factory p w = (Inr res, w') \<and>
    handle_map s g = None"
  then obtain h where h: "skip_used (handle_map s) (next_handle s) = Some h"
    using skip_used_returns [of "handle_map s" g "next_handle s"] by blast
  then have free: "handle_map s h = None"
    by (rule skip_used_Some_free)
  let ?s' = "s\<lparr>handle_map := emplace (handle_map s) h res, next_handle := h + 1\<rparr>"
  from a h have "OpenArchive F s id_code p w = Some (Inr h, ?s', w')"
    by (simp add: OpenArchive_def)
  moreover from free have "h \<notin> dom (handle_map s)" by (simp add: domIff)
  moreover from free have "handle_map ?s' h = Some res" by (simp add: emplace_def)
  ultimately show "\<exists>h s'. OpenArchive F s id_code p w = Some (Inr h, s', w') \<and>
         h \<notin> dom (handle_map s) \<and> handle_map s' h = Some res"
    by blast
qed

text \<open>
  On the sample table with handles 1 and 2 live and the counter at 3: \<open>NCCH\<close> is not
  registered, and opening \<open>SDMC\<close> returns handle 3.
\<close>

theorem OpenArchive_not_found_or_fresh_witness:
  "OpenArchive sample_factory two_open NCCH ''/'' [] = Some (Inl ERROR_NOT_FOUND, two_open, []) \<and>
   map_option fst (OpenArchive sample_factory two_open SDMC ''/'' []) = Some (Inr 3) \<and>
   handle_map two_open 3 = None"
proof -
  have unreg: "id_code_map two_open NCCH = None"
    by (simp add: two_open_def sample_registry_def)
  have reg: "id_code_map two_open SDMC = Some 0 \<and>
      Open sample_factory 0 ''/'' [] = (Inr 0, [''Open'']) \<and> handle_map two_open 0 = None"
    by (simp add: two_open_def sample_registry_def sample_factory_def)
  have run: "skip_used (handle_map two_open) (next_handle two_open) = Some 3"
    by (simp add: skip_used_unused two_open_def)
  from unreg OpenArchive_not_found_or_fresh [of two_open NCCH sample_factory "''/''" "[]"]
  have "OpenArchive sample_factory two_open NCCH ''/'' [] = Some (Inl ERROR_NOT_FOUND, two_open, [])"
    by blast
  moreover
  from reg OpenArchive_not_found_or_fresh [of two_open SDMC sample_factory "''/''" "[]" 0 0 "[''Open'']" 0]
  obtain h s' where "OpenArchive sample_factory two_open SDMC ''/'' [] = Some (Inr h, s', [''Open''])"
    by blast
  with reg run have "map_option fst (OpenArchive sample_factory two_open SDMC ''/'' []) = Some (Inr 3)"
    by (simp add: OpenArchive_def)
  moreover have "handle_map two_open 3 = None"
    by (simp add: two_open_def)
  ultimately show ?thesis by simp
qed








subsection \<open>Operations on a handle\<close>

text \<open>
  After \<open>CloseArchive\<close> the handle is not in the table, whatever the call returned.
\<close>

lemma CloseArchive_removes: "handle_map (snd (CloseArchive s h)) h = None"
  by (simp add: CloseArchive_def erase_def)

text \<open>
  C6. For a handle \<open>h\<close> that is not in the handle table, or that has just been closed
  with success, every operation on the handle returns \<open>ERR_INVALID_ARCHIVE_HANDLE\<close> and
  leaves the state and the world as they are: closing it (an error, not a no-op), opening
  a file or a directory, deleting a file or a directory (recursively or not), creating a
  file or a directory, renaming a file or a directory with \<open>h\<close> as the source or as the
  destination, and asking for the free bytes.
\<close>

theorem invalid_handle_rejected:
  assumes "handle_map s h = None \<or> CloseArchive s0 h = (RESULT_SUCCESS, s)"
  shows "CloseArchive s h = (ERR_INVALID_ARCHIVE_HANDLE, s) \<and>
    OpenFileFromArchive B s h p mode w = (Inl ERR_INVALID_ARCHIVE_HANDLE, w) \<and>
    OpenDirectoryFromArchive B s h p w = (Inl ERR_INVALID_ARCHIVE_HANDLE, w) \<and>
    DeleteFileFromArchive B s h p w = (ERR_INVALID_ARCHIVE_HANDLE, w) \<and>
    DeleteDirectoryFromArchive B s h p w = (ERR_INVALID_ARCHIVE_HANDLE, w) \<and>
    DeleteDirectoryRecursivelyFromArchive B s h p w = (ERR_INVALID_ARCHIVE_HANDLE, w) \<and>
    CreateFileInArchive B s h p file_size w = (ERR_INVALID_ARCHIVE_HANDLE, w) \<and>
    CreateDirectoryFromArchive B s h p w = (ERR_INVALID_ARCHIVE_HANDLE, w) \<and>
    RenameFileBetweenArchives B s h p h2 q w = (ERR_INVALID_ARCHIVE_HANDLE, w) \<and>
    RenameFileBetweenArchives B s h2 p h q w = (ERR_INVALID_ARCHIVE_HANDLE, w) \<and>
    RenameDirectoryBetweenArchives B s h p h2 q w = (ERR_INVALID_ARCHIVE_HANDLE, w) \<and>
    RenameDirectoryBetweenArchives B s h2 p h q w = (ERR_INVALID_ARCHIVE_HANDLE, w) \<and>
    GetFreeBytesInArchive B s h w = (Inl ERR_INVALID_ARCHIVE_HANDLE, w)"
proof -
  from assms have absent: "handle_map s h = None"
  proof
    assume "handle_map s h = None"
    then show ?thesis .
  next
    assume "CloseArchive s0 h = (RESULT_SUCCESS, s)"
    then have "s = snd (CloseArchive s0 h)" by simp
    then show ?thesis by (simp only: CloseArchive_removes)
  qed
  then have null: "GetArchive s h = None" by (simp add: GetArchive_def)
  have close: "CloseArchive s h = (ERR_INVALID_ARCHIVE_HANDLE, s)"
    using absent by (simp add: CloseArchive_def erase_def)
  have open_file: "OpenFileFromArchive B s h p mode w = (Inl ERR_INVALID_ARCHIVE_HANDLE, w)"
    using null by (simp add: OpenFileFromArchive_def)
  have open_dir: "OpenDirectoryFromArchive B s h p w = (Inl ERR_INVALID_ARCHIVE_HANDLE, w)"
    using null by (simp add: OpenDirectoryFromArchive_def)
  have del_file: "DeleteFileFromArchive B s h p w = (ERR_INVALID_ARCHIVE_HANDLE, w)"
    using null by (simp add: DeleteFileFromArchive_def)
  have del_dir: "DeleteDirectoryFromArchive B s h p w = (ERR_INVALID_ARCHIVE_HANDLE, w)"
    using null by (simp add: DeleteDirectoryFromArchive_def)
  have del_rec: "DeleteDirectoryRecursivelyFromArchive B s h p w = (ERR_INVALID_ARCHIVE_HANDLE, w)"
    using null by (simp add: DeleteDirectoryRecursivelyFromArchive_def)
  have create_file: "CreateFileInArchive B s h p file_size w = (ERR_INVALID_ARCHIVE_HANDLE, w)"
    using null by (simp add: CreateFileInArchive_def)
  have create_dir: "CreateDirectoryFromArchive B s h p w = (ERR_INVALID_ARCHIVE_HANDLE, w)"
    using null by (simp add: CreateDirectoryFromArchive_def)
  have ren_file: "RenameFileBetweenArchives B s h p h2 q w = (ERR_INVALID_ARCHIVE_HANDLE, w)"
      "RenameFileBetweenArchives B s h2 p h q w = (ERR_INVALID_ARCHIVE_HANDLE, w)"
    using null by (simp_all add: RenameFileBetweenArchives_def)
  have ren_dir: "RenameDirectoryBetweenArchives B s h p h2 q w = (ERR_INVALID_ARCHIVE_HANDLE, w)"
      "RenameDirectoryBetweenArchives B s h2 p h q w = (ERR_INVALID_ARCHIVE_HANDLE, w)"
    using null by (simp_all add: RenameDirectoryBetweenArchives_def)
  have free_bytes: "GetFreeBytesInArchive B s h w = (Inl ERR_INVALID_ARCHIVE_HANDLE, w)"
    using null by (simp add: GetFreeBytesInArchive_def)
  from close open_file open_dir del_file del_dir del_rec create_file create_dir ren_file ren_dir
    free_bytes
  show ?thesis by (intro conjI)
qed

text \<open>
  On the sample table: closing handle 1 succeeds; afterwards closing it again, deleting
  through it and renaming onto it are refused, while the same deletion succeeded before.
\<close>

theorem invalid_handle_rejected_witness:
  "fst (CloseArchive two_open 1) = RESULT_SUCCESS \<and>
   fst (CloseArchive (snd (CloseArchive two_open 1)) 1) = ERR_INVALID_ARCHIVE_HANDLE \<and>
   DeleteFileFromArchive sample_archive (snd (CloseArchive two_open 1)) 1 ''/a.bin'' [] =
     (ERR_INVALID_ARCHIVE_HANDLE, []) \<and>
   RenameFileBetweenArchives sample_archive (snd (CloseArchive two_open 1)) 2 ''/a.bin'' 1 ''/b'' [] =
     (ERR_INVALID_ARCHIVE_HANDLE, []) \<and>
   DeleteFileFromArchive sample_archive two_open 1 ''/a.bin'' [] = (RESULT_SUCCESS, [''DeleteFile''])"
proof -
  have closed: "CloseArchive two_open 1 = (RESULT_SUCCESS, snd (CloseArchive two_open 1))"
    by (simp add: CloseArchive_def erase_def two_open_def)
  then have hyp: "handle_map (snd (CloseArchive two_open 1)) 1 = None \<or>
      CloseArchive two_open 1 = (RESULT_SUCCESS, snd (CloseArchive two_open 1))" ..
  note after = invalid_handle_rejected [OF hyp, of sample_archive "''/a.bin''" 0 "[]" 0 2 "''/b''"]
  have before: "DeleteFileFromArchive sample_archive two_open 1 ''/a.bin'' [] =
      (RESULT_SUCCESS, [''DeleteFile''])"
    by (simp add: DeleteFileFromArchive_def GetArchive_def two_open_def sample_archive_def)
  have ok: "fst (CloseArchive two_open 1) = RESULT_SUCCESS"
    by (simp add: CloseArchive_def erase_def two_open_def)
  from ok after before show ?thesis by simp
qed

text \<open>
  C7. A rename of a file or of a directory whose source and destination handle are the
  same live handle is the rename of that archive's backend: its result and its effect on
  the world. With two distinct live handles that resolve to different archives the result
  is \<open>UnimplementedFunction(ErrorModule::FS)\<close>, no backend is called and the world is as
  before.
\<close>

theorem rename_same_or_cross_archive:
  "(handle_map s h = Some archive \<longrightarrow>
      RenameFileBetweenArchives B s h p h q w = RenameFile B archive p q w \<and>
      RenameDirectoryBetweenArchives B s h p h q w = RenameDirectory B archive p q w) \<and>
   (h1 \<noteq> h2 \<and> handle_map s h1 = Some a1 \<and> handle_map s h2 = Some a2 \<and> a1 \<noteq> a2 \<longrightarrow>
      RenameFileBetweenArchives B s h1 p h2 q w = (UnimplementedFunction FS, w) \<and>
      RenameDirectoryBetweenArchives B s h1 p h2 q w = (UnimplementedFunction FS, w))"
  by (simp add: RenameFileBetweenArchives_def RenameDirectoryBetweenArchives_def GetArchive_def)

text \<open>
  On the sample table: renaming within handle 1 reaches the backend, renaming from handle
  1 to handle 2 does not.
\<close>

theorem rename_same_or_cross_archive_witness:
  "RenameFileBetweenArchives sample_archive two_open 1 ''/a'' 1 ''/b'' [] =
     (RESULT_SUCCESS, [''RenameFile'']) \<and>
   RenameDirectoryBetweenArchives sample_archive two_open 1 ''/a'' 1 ''/b'' [] =
     (RESULT_SUCCESS, [''RenameDirectory'']) \<and>
   RenameFileBetweenArchives sample_archive two_open 1 ''/a'' 2 ''/b'' [] =
     (UnimplementedFunction FS, []) \<and>
   RenameDirectoryBetweenArchives sample_archive two_open 1 ''/a'' 2 ''/b'' [] =
     (UnimplementedFunction FS, [])"
proof -
  have live: "handle_map two_open 1 = Some 10" "handle_map two_open 2 = Some 11"
    by (simp_all add: two_open_def)
  from live rename_same_or_cross_archive [of two_open 1 10 sample_archive "''/a''" "''/b''" "[]" 1 2 10 11]
  show ?thesis by (simp add: sample_archive_def)
qed

subsection \<open>Operations through the registry\<close>

text \<open>
  C3. For an id code that is not registered, \<open>FormatArchive\<close> and
  \<open>GetArchiveFormatInfo\<close> return \<open>UnimplementedFunction(ErrorModule::FS)\<close>, which is not
  the not-found error; \<open>OpenArchive\<close> returns \<open>ERROR_NOT_FOUND\<close> for the same id code.
  Evaluated on the sample registry, where \<open>NCCH\<close> is not registered.
\<close>

theorem format_lookup_miss:
  "id_code_map two_open NCCH = None \<and>
   FormatArchive sample_factory two_open NCCH [] ''/'' [] = (UnimplementedFunction FS, []) \<and>
   GetArchiveFormatInfo sample_factory two_open NCCH ''/'' [] = (Inl (UnimplementedFunction FS), []) \<and>
   UnimplementedFunction FS \<noteq> ERROR_NOT_FOUND \<and>
   OpenArchive sample_factory two_open NCCH ''/'' [] = Some (Inl ERROR_NOT_FOUND, two_open, [])"
  by (simp add: FormatArchive_def GetArchiveFormatInfo_def OpenArchive_def two_open_def
      sample_registry_def)

text \<open>
  C1 (as the code has it). When the icon address is invalid at the point where
  \<open>CreateExtSaveData\<close> tests it, that is in the world \<open>Format\<close> leaves, the call returns
  an error and never writes the icon. The address is tested after the factory lookup and
  after \<open>Format\<close>: the world the call leaves is the one \<open>Format\<close> left when the factory
  is registered, and the world before the call when it is not.
\<close>

theorem CreateExtSaveData_invalid_icon:
  assumes "\<forall>ext_savedata.
             id_code_map s (if media_type = NAND then SharedExtSaveData else ExtSaveData) =
               Some ext_savedata \<longrightarrow>
             \<not> IsValidVirtualAddress G
                 (snd (Format F ext_savedata (ConstructExtDataBinaryPath G media_type high low)
                        info w))
                 icon_buffer"
  shows "IsError (fst (CreateExtSaveData F G s media_type high low icon_buffer icon_size info w)) \<and>
         snd (CreateExtSaveData F G s media_type high low icon_buffer icon_size info w) =
           (case id_code_map s (if media_type = NAND then SharedExtSaveData else ExtSaveData) of
              None \<Rightarrow> w
            | Some ext_savedata \<Rightarrow>
                snd (Format F ext_savedata (ConstructExtDataBinaryPath G media_type high low) info w))"
proof (cases "id_code_map s (if media_type = NAND then SharedExtSaveData else ExtSaveData)")
  case None
  then show ?thesis
    by (simp add: CreateExtSaveData_def Let_def)
next
  case (Some ext_savedata)
  obtain result w1 where
    fmt: "Format F ext_savedata (ConstructExtDataBinaryPath G media_type high low) info w =
            (result, w1)"
    by (cases "Format F ext_savedata (ConstructExtDataBinaryPath G media_type high low) info w")
  from assms Some fmt have invalid: "\<not> IsValidVirtualAddress G w1 icon_buffer"
    by simp
  have top_bit: "IsError (ResultCode (- 1))"
    by simp
  from Some fmt invalid top_bit show ?thesis
    by (simp add: CreateExtSaveData_def Let_def)
qed

text \<open>
  With the memory whose mapping grows with the journal, address 5 is not mapped after the
  one call of \<open>Format\<close>: for the SD card the result is \<open>ResultCode(-1)\<close> after the format.
  For NAND no factory is registered and nothing is done.
\<close>

theorem CreateExtSaveData_invalid_icon_witness:
  "\<not> IsValidVirtualAddress growing_memory [''Format''] 5 \<and>
   CreateExtSaveData sample_factory growing_memory two_open SDMC_media 0 1 5 4 [] [] =
     (ResultCode (- 1), [''Format'']) \<and>
   IsError (ResultCode (- 1)) \<and>
   CreateExtSaveData sample_factory growing_memory two_open NAND 0 1 5 4 [] [] =
     (UnimplementedFunction FS, [])"
proof -
  have reg: "id_code_map two_open (if SDMC_media = NAND then SharedExtSaveData else ExtSaveData) =
      Some 1"
    by (simp add: two_open_def sample_registry_def)
  have fmt: "snd (Format sample_factory 1
      (ConstructExtDataBinaryPath growing_memory SDMC_media 0 1) [] []) = [''Format'']"
    by (simp add: sample_factory_def)
  have unmapped: "\<not> IsValidVirtualAddress growing_memory [''Format''] 5"
    by (simp add: growing_memory_def)
  from reg fmt unmapped have sd_hyp: "\<forall>ext_savedata.
      id_code_map two_open (if SDMC_media = NAND then SharedExtSaveData else ExtSaveData) =
        Some ext_savedata \<longrightarrow>
      \<not> IsValidVirtualAddress growing_memory
          (snd (Format sample_factory ext_savedata
                 (ConstructExtDataBinaryPath growing_memory SDMC_media 0 1) [] []))
          5"
    by simp
  have unreg: "id_code_map two_open (if NAND = NAND then SharedExtSaveData else ExtSaveData) = None"
    by (simp add: two_open_def sample_registry_def)
  then have nand_hyp: "\<forall>ext_savedata.
      id_code_map two_open (if NAND = NAND then SharedExtSaveData else ExtSaveData) =
        Some ext_savedata \<longrightarrow>
      \<not> IsValidVirtualAddress growing_memory
          (snd (Format sample_factory ext_savedata
                 (ConstructExtDataBinaryPath growing_memory NAND 0 1) [] []))
          5"
    by simp
  note sd = CreateExtSaveData_invalid_icon [OF sd_hyp, of 4]
  note nand = CreateExtSaveData_invalid_icon [OF nand_hyp, of 4]
  have sd_code: "fst (CreateExtSaveData sample_factory growing_memory two_open SDMC_media 0 1 5 4 [] []) =
      ResultCode (- 1)"
    by (simp add: CreateExtSaveData_def two_open_def sample_registry_def sample_factory_def
        growing_memory_def)
  have nand_code: "fst (CreateExtSaveData sample_factory growing_memory two_open NAND 0 1 5 4 [] []) =
      UnimplementedFunction FS"
    by (simp add: CreateExtSaveData_def two_open_def sample_registry_def)
  from sd reg fmt sd_code
  have sd_all: "CreateExtSaveData sample_factory growing_memory two_open SDMC_media 0 1 5 4 [] [] =
      (ResultCode (- 1), [''Format'']) \<and> IsError (ResultCode (- 1))"
    by (simp add: prod_eq_iff)
  from nand unreg nand_code
  have nand_all: "CreateExtSaveData sample_factory growing_memory two_open NAND 0 1 5 4 [] [] =
      (UnimplementedFunction FS, [])"
    by (simp add: prod_eq_iff)
  from unmapped sd_all nand_all show ?thesis by simp
qed

text \<open>
  C1 as stated fails: with an invalid icon address the call reports the failure after
  the container has been formatted.
\<close>

theorem CreateExtSaveData_formats_before_check:
  "\<not> IsValidVirtualAddress sample_memory [''Format''] 0 \<and>
   \<not> IsValidVirtualAddress sample_memory [] 0 \<and>
   CreateExtSaveData sample_factory sample_memory two_open SDMC_media 0 1 0 4 [] [] =
     (ResultCode (- 1), [''Format'']) \<and>
   snd (CreateExtSaveData sample_factory sample_memory two_open SDMC_media 0 1 0 4 [] []) \<noteq> []"
  by (simp add: CreateExtSaveData_def two_open_def sample_registry_def sample_factory_def
        sample_memory_def)

subsection \<open>The commands of a file session\<close>

text \<open>
  C8. \<open>File::Read\<close> calls the backend with the offset and the length of the request,
  whatever the size the backend reports: when \<open>offset + length\<close> exceeds that size, the
  only difference is the line in the log. The response is the backend's error code with a
  count of 0, or success with the backend's byte count (as a 32-bit word) after the bytes
  read have been written to the mapped buffer.
\<close>

theorem File_Read_not_clamped:
  "File_Read E M f offset len buffer w =
    (case Read E (backend f) offset (unat len) (replicate (unat len) 0) w of
       (Inl code, data', w') \<Rightarrow>
         ([Push_ResultCode code, Push_u32 0, PushMappedBuffer buffer],
          if GetSize E (backend f) w < offset + ucast len then [''Reading from out of bounds''] else [],
          w')
     | (Inr n, data', w') \<Rightarrow>
         ([Push_ResultCode RESULT_SUCCESS, Push_u32 (of_nat n),
           PushMappedBuffer (Buffer_Write M buffer data' 0 n)],
          if GetSize E (backend f) w < offset + ucast len then [''Reading from out of bounds''] else [],
          w'))"
  by (simp add: File_Read_def Let_def split: prod.splits sum.splits)

text \<open>
  Reading 8 bytes at offset 2 of the sample file of 4 bytes: the request goes beyond the
  size, is logged, and returns the 2 bytes the backend read.
\<close>

theorem File_Read_not_clamped_witness:
  "GetSize sample_file_backend (backend sample_file) [] < 2 + ucast (8 :: u32) \<and>
   Read sample_file_backend (backend sample_file) 2 8 (replicate 8 0) [] =
     (Inr 2, [3, 4, 0, 0, 0, 0, 0, 0], [''Read'']) \<and>
   File_Read sample_file_backend sample_buffer sample_file 2 8 [9, 9, 9, 9, 9, 9, 9, 9] [] =
     ([Push_ResultCode RESULT_SUCCESS, Push_u32 2, PushMappedBuffer [3, 4, 9, 9, 9, 9, 9, 9]],
      [''Reading from out of bounds''], [''Read''])"
proof -
  have size: "GetSize sample_file_backend (backend sample_file) [] < 2 + ucast (8 :: u32)"
    by (simp add: sample_file_backend_def sample_file_def File_new_def)
  have rd: "Read sample_file_backend (backend sample_file) 2 (unat (8 :: u32)) (replicate (unat (8 :: u32)) 0) [] =
     (Inr 2, [3, 4, 0, 0, 0, 0, 0, 0], [''Read''])"
    by code_simp
  from size rd
    File_Read_not_clamped [of sample_file_backend sample_buffer sample_file 2 8 "[9, 9, 9, 9, 9, 9, 9, 9]" "[]"]
  show ?thesis
    by (simp add: sample_buffer_def)
qed

text \<open>
  C10. When the backend's read fails, the response of \<open>File::Read\<close> is the backend's
  error code, a byte count of 0 and the mapped buffer as it was received: nothing is
  written to it. The world is as the backend's call left it.
\<close>

theorem File_Read_failure:
  assumes "Read E (backend f) offset (unat len) (replicate (unat len) 0) w = (Inl code, data', w')"
  shows "fst (File_Read E M f offset len buffer w) =
           [Push_ResultCode code, Push_u32 0, PushMappedBuffer buffer] \<and>
         snd (snd (File_Read E M f offset len buffer w)) = w'"
  using assms by (simp add: File_Read_def Let_def)

text \<open>
  Reading from the broken sample file.
\<close>

theorem File_Read_failure_witness:
  "Read sample_file_backend (backend broken_file) 0 (unat (2 :: u32)) (replicate (unat (2 :: u32)) 0) [] =
     (Inl ERROR_NOT_FOUND, [0, 0], [''Read'']) \<and>
   fst (File_Read sample_file_backend sample_buffer broken_file 0 2 [9, 9, 9] []) =
     [Push_ResultCode ERROR_NOT_FOUND, Push_u32 0, PushMappedBuffer [9, 9, 9]] \<and>
   snd (snd (File_Read sample_file_backend sample_buffer broken_file 0 2 [9, 9, 9] [])) = [''Read'']"
proof -
  have failing: "Read sample_file_backend (backend broken_file) 0 (unat (2 :: u32))
      (replicate (unat (2 :: u32)) 0) [] = (Inl ERROR_NOT_FOUND, [0, 0], [''Read''])"
    by code_simp
  from failing File_Read_failure [OF failing, of sample_buffer "[9, 9, 9]"]
  show ?thesis by simp
qed

text \<open>
  C9. \<open>File::SetPriority\<close> answers success, stores \<open>p\<close> and leaves the world and the
  backend of the file as they are; a following \<open>File::GetPriority\<close> answers success and
  \<open>p\<close>, in any world and with any backend interface, and changes nothing.
\<close>

theorem SetPriority_GetPriority:
  "File_SetPriority E f p w =
     ([Push_ResultCode RESULT_SUCCESS :: 'm pushed], f\<lparr>priority := p\<rparr>, w) \<and>
   File_GetPriority E' (f\<lparr>priority := p\<rparr>) w' =
     ([Push_ResultCode RESULT_SUCCESS, Push_u32 p :: 'm pushed], f\<lparr>priority := p\<rparr>, w') \<and>
   backend (f\<lparr>priority := p\<rparr>) = backend f"
  by (simp add: File_SetPriority_def File_GetPriority_def)

text \<open>
  Setting priority 7 on the broken sample file, then reading it back.
\<close>

theorem SetPriority_GetPriority_witness:
  "(case (File_SetPriority sample_file_backend broken_file 7 []
            :: u8 list pushed list \<times> File \<times> journal) of
      (r1, f1, w1) \<Rightarrow> File_GetPriority sample_file_backend f1 w1) =
   ([Push_ResultCode RESULT_SUCCESS, Push_u32 7 :: u8 list pushed],
    \<lparr>path = ''/b.bin'', priority = 7, backend = 1\<rparr>, [])"
  using SetPriority_GetPriority [where ?'m = "u8 list",
      of sample_file_backend broken_file 7 "[]" sample_file_backend "[]"]
  by (simp add: broken_file_def File_new_def)

text \<open>
  C2 (as the code has it). \<open>File::Read\<close> and \<open>File::Write\<close> forward the error code of a
  failing backend call unchanged, with a count of 0. \<open>File::SetSize\<close>, \<open>File::Flush\<close> and
  \<open>File::Close\<close> call the backend and then answer success, whatever the call returned.
\<close>

theorem backend_failure_forwarding:
  "(Read E (backend f) offset (unat len) (replicate (unat len) 0) w = (Inl code, data', w') \<longrightarrow>
      fst (File_Read E M f offset len buffer w) =
        [Push_ResultCode code, Push_u32 0, PushMappedBuffer buffer]) \<and>
   (Write E (backend f) offset (unat len) (flush \<noteq> 0) (Buffer_Read M buffer 0 (unat len)) w =
      (Inl code2, w2) \<longrightarrow>
      fst (File_Write E M f offset len flush buffer w) =
        [Push_ResultCode code2, Push_u32 0, PushMappedBuffer buffer]) \<and>
   File_SetSize E f n w = ([Push_ResultCode RESULT_SUCCESS :: 'm pushed], snd (SetSize E (backend f) n w)) \<and>
   File_Flush E f w = ([Push_ResultCode RESULT_SUCCESS :: 'm pushed], snd (Flush E (backend f) w)) \<and>
   File_Close E f w = ([Push_ResultCode RESULT_SUCCESS :: 'm pushed], snd (Close E (backend f) w))"
  by (simp add: File_Read_def File_Write_def File_SetSize_def File_Flush_def File_Close_def
      Let_def split: prod.splits)

text \<open>
  On the broken sample file, whose backend fails every call.
\<close>

theorem backend_failure_forwarding_witness:
  "fst (File_Read sample_file_backend sample_buffer broken_file 0 2 [9, 9, 9] []) =
     [Push_ResultCode ERROR_NOT_FOUND, Push_u32 0, PushMappedBuffer [9, 9, 9]] \<and>
   fst (File_Write sample_file_backend sample_buffer broken_file 0 2 1 [9, 9, 9] []) =
     [Push_ResultCode ERROR_NOT_FOUND, Push_u32 0, PushMappedBuffer [9, 9, 9]] \<and>
   File_SetSize sample_file_backend broken_file 16 [] =
     ([Push_ResultCode RESULT_SUCCESS :: u8 list pushed], [''SetSize'']) \<and>
   File_Flush sample_file_backend broken_file [] =
     ([Push_ResultCode RESULT_SUCCESS :: u8 list pushed], [''Flush''])"
proof -
  have rd: "Read sample_file_backend (backend broken_file) 0 (unat (2 :: u32))
      (replicate (unat (2 :: u32)) 0) [] = (Inl ERROR_NOT_FOUND, [0, 0], [''Read''])"
    by code_simp
  have wr: "Write sample_file_backend (backend broken_file) 0 (unat (2 :: u32)) ((1 :: u32) \<noteq> 0)
      (Buffer_Read sample_buffer [9, 9, 9] 0 (unat (2 :: u32))) [] = (Inl ERROR_NOT_FOUND, [''Write''])"
    by code_simp
  have ss: "snd (SetSize sample_file_backend (backend broken_file) 16 []) = [''SetSize'']"
    by (simp add: sample_file_backend_def)
  have fl: "snd (Flush sample_file_backend (backend broken_file) []) = [''Flush'']"
    by (simp add: sample_file_backend_def)
  from rd wr ss fl
    backend_failure_forwarding [where ?'m = "u8 list", of sample_file_backend broken_file 0 2 "[]"
      ERROR_NOT_FOUND "[0, 0]" "[''Read'']" sample_buffer "[9, 9, 9]" 1 ERROR_NOT_FOUND
      "[''Write'']" 16]
  show ?thesis by simp
qed

text \<open>
  C2 as stated fails: the backend of the broken sample file fails \<open>SetSize\<close> and
  \<open>Flush\<close> with \<open>ERROR_NOT_FOUND\<close>, and both commands answer success.
\<close>

theorem SetSize_failure_not_forwarded:
  "fst (SetSize sample_file_backend (backend broken_file) 16 []) = ERROR_NOT_FOUND \<and>
   IsError (fst (SetSize sample_file_backend (backend broken_file) 16 [])) \<and>
   fst (File_SetSize sample_file_backend broken_file 16 []) =
     [Push_ResultCode RESULT_SUCCESS :: u8 list pushed] \<and>
   fst (Flush sample_file_backend (backend broken_file) []) = ERROR_NOT_FOUND \<and>
   fst (File_Flush sample_file_backend broken_file []) =
     [Push_ResultCode RESULT_SUCCESS :: u8 list pushed]"
  by (simp add: File_SetSize_def File_Flush_def sample_file_backend_def broken_file_def File_new_def)

end
